theory Spec2Isabelle
  imports Main "HOL-Library.Sublist" "HOL-Library.AList"
begin

section \<open>Python values, exceptions and the observable history\<close>

text \<open>
  The module \<^verbatim>\<open>hastexo/provider.py\<close> drives three cloud backends through their SDK
  clients. The embedding keeps the drivers' control flow and makes everything else
  explicit:
  \<^item> a Python value (a configuration entry, a stack output, a result dictionary) is a
    \<open>pyval\<close>; a dictionary is an association list in insertion order, read with
    \<open>map_of\<close> and written with \<open>AList.update\<close>;
  \<^item> an exception is a value of \<open>error\<close>, and every operation returns
    \<open>error + result\<close> together with the history it leaves behind;
  \<^item> the history is the list of sleeps and SDK calls made so far, oldest first. An SDK
    client is a function from the history (which already ends with the call being made)
    and the call's arguments to a \<open>reply\<close>, so a backend may answer differently every
    time it is asked;
  \<^item> a polling loop with no bound of its own is a \<open>partial_function\<close> into \<open>option\<close>:
    \<open>None\<close> means that the loop never returns.
  Objects returned by an SDK are records of the attributes the code reads without a
  guard; an attribute or key the code tests for first is an \<open>option\<close>. Resource tags
  stay dictionaries, because the module itself reads and writes them under two
  different sets of keys.
\<close>

datatype pyval =
    PNone
  | PBool bool
  | PInt int
  | PStr string
  | PList "pyval list"
  | PDict "(string \<times> pyval) list"

text \<open>Python's truth value of an object, as \<^verbatim>\<open>if x\<close> and \<^verbatim>\<open>not x\<close> take it.\<close>

fun truthy :: "pyval \<Rightarrow> bool" where
  "truthy PNone = False"
| "truthy (PBool b) = b"
| "truthy (PInt i) = (i \<noteq> 0)"
| "truthy (PStr s) = (s \<noteq> [])"
| "truthy (PList xs) = (xs \<noteq> [])"
| "truthy (PDict kvs) = (kvs \<noteq> [])"

text \<open>\<^verbatim>\<open>d.get(k)\<close>: the value under the key, \<^verbatim>\<open>None\<close> when the key is absent.\<close>

definition dict_get :: "(string \<times> pyval) list \<Rightarrow> string \<Rightarrow> pyval" where
  "dict_get d k = (case map_of d k of None \<Rightarrow> PNone | Some v \<Rightarrow> v)"

text \<open>
  \<open>ProviderException\<close> is the module's own exception. The others are Python's, raised
  where the code has no handler for them; \<open>BackendError\<close> is an SDK exception that no
  handler of the driver takes, so that it leaves the driver as the SDK raised it.
\<close>

datatype error =
    ProviderException string
  | KeyError string
  | IndexError string
  | AttributeError string
  | TypeError string
  | UnboundLocalError string
  | BinasciiError string
  | BackendError string

text \<open>\<^verbatim>\<open>x.get(k)\<close> and \<^verbatim>\<open>x[k]\<close> on a value that need not be a dictionary.\<close>

definition py_get :: "pyval \<Rightarrow> string \<Rightarrow> error + pyval" where
  "py_get x k = (case x of PDict d \<Rightarrow> Inr (dict_get d k) | _ \<Rightarrow> Inl (AttributeError ''get''))"

definition py_item :: "pyval \<Rightarrow> string \<Rightarrow> error + pyval" where
  "py_item x k =
     (case x of
        PDict d \<Rightarrow> (case map_of d k of None \<Rightarrow> Inl (KeyError k) | Some v \<Rightarrow> Inr v)
      | _ \<Rightarrow> Inl (TypeError ''subscript''))"

text \<open>\<^verbatim>\<open>str(n)\<close> of an integer, and \<^verbatim>\<open>s.split('/')[-1]\<close>.\<close>

fun str_nat :: "nat \<Rightarrow> string" where
  "str_nat n =
     (if n < 10 then [char_of (48 + n)] else str_nat (n div 10) @ [char_of (48 + n mod 10)])"

declare str_nat.simps [simp del]

definition str_int :: "int \<Rightarrow> string" where
  "str_int i = (if i < 0 then CHR ''-'' # str_nat (nat (- i)) else str_nat (nat i))"


text \<open>
  What an SDK call does: it returns, it raises the SDK's not-found exception
  (\<^verbatim>\<open>HTTPNotFound\<close> of heatclient, \<^verbatim>\<open>NotFound\<close> of novaclient, an \<^verbatim>\<open>HttpError\<close> with
  status 404 of googleapiclient), or it raises another exception of the SDK. The string
  is the exception's text. The not-found exceptions are subclasses of the general ones
  (\<^verbatim>\<open>HTTPException\<close>, \<^verbatim>\<open>ClientException\<close>, \<^verbatim>\<open>GcloudApiError\<close>), so a handler for the general
  exception that is not preceded by one for not-found takes both.
\<close>

datatype 'a reply = Ok 'a | NotFound string | Fault string

datatype event = Sleep int | Api string "pyval list"

type_synonym history = "event list"

definition sleeps :: "history \<Rightarrow> int list" where
  "sleeps tr = concat (map (\<lambda>e. case e of Sleep s \<Rightarrow> [s] | Api f args \<Rightarrow> []) tr)"

definition calls :: "string \<Rightarrow> history \<Rightarrow> pyval list list" where
  "calls f tr = concat (map (\<lambda>e. case e of Sleep s \<Rightarrow> [] | Api g args \<Rightarrow> if g = f then [args] else []) tr)"

definition api_calls :: "history \<Rightarrow> event list" where
  "api_calls tr = filter (\<lambda>e. case e of Sleep s \<Rightarrow> False | Api g args \<Rightarrow> True) tr"

text \<open>
  Modelled from the spec: the status constants that \<^verbatim>\<open>provider.py\<close> imports from
  \<^verbatim>\<open>hastexo/common.py\<close>, which is not among the sources. The glossary names the common
  status vocabulary; each constant is the string of its name.
\<close>

definition IN_PROGRESS :: string where "IN_PROGRESS = ''IN_PROGRESS''"
definition FAILED :: string where "FAILED = ''FAILED''"
definition CREATE_COMPLETE :: string where "CREATE_COMPLETE = ''CREATE_COMPLETE''"
definition DELETE_COMPLETE :: string where "DELETE_COMPLETE = ''DELETE_COMPLETE''"
definition DELETE_IN_PROGRESS :: string where "DELETE_IN_PROGRESS = ''DELETE_IN_PROGRESS''"
definition RESUME_COMPLETE :: string where "RESUME_COMPLETE = ''RESUME_COMPLETE''"
definition RESUME_IN_PROGRESS :: string where "RESUME_IN_PROGRESS = ''RESUME_IN_PROGRESS''"
definition SUSPEND_COMPLETE :: string where "SUSPEND_COMPLETE = ''SUSPEND_COMPLETE''"
definition SUSPEND_IN_PROGRESS :: string where "SUSPEND_IN_PROGRESS = ''SUSPEND_IN_PROGRESS''"

lemmas status_defs =
  IN_PROGRESS_def FAILED_def CREATE_COMPLETE_def DELETE_COMPLETE_def DELETE_IN_PROGRESS_def
  RESUME_COMPLETE_def RESUME_IN_PROGRESS_def SUSPEND_COMPLETE_def SUSPEND_IN_PROGRESS_def



section \<open>The provider object\<close>

text \<open>
  The attributes of \<^verbatim>\<open>Provider\<close> that the drivers read. \<^verbatim>\<open>template\<close> and \<^verbatim>\<open>environment\<close>
  are \<^verbatim>\<open>None\<close> until \<^verbatim>\<open>set_template\<close> and \<^verbatim>\<open>set_environment\<close> store a value. The method
  \<^verbatim>\<open>generate_key_pair(encodeb64, key_type)\<close> draws fresh key material from paramiko or
  cryptography; it is a field, so that a theorem holds for whatever keys come out. It
  talks to no backend and leaves no trace in the history. \<open>yaml_safe_load\<close> is
  \<^verbatim>\<open>yaml.safe_load\<close> on a string, \<open>None\<close> when it raises \<^verbatim>\<open>YAMLError\<close>; it is a field for the
  same reason.
\<close>

record keypair =
  public_key :: string
  private_key :: string

record provider =
  provider_name :: string
  sleep_seconds :: int
  credentials :: "(string \<times> pyval) list"
  template :: pyval
  environment :: pyval
  generate_key_pair :: "history \<Rightarrow> bool \<Rightarrow> string \<Rightarrow> keypair"
  yaml_safe_load :: "string \<Rightarrow> pyval option"

definition sleep :: "'a provider_scheme \<Rightarrow> history \<Rightarrow> history" where
  "sleep self tr = tr @ [Sleep (sleep_seconds self)]"

definition set_template :: "pyval \<Rightarrow> 'a provider_scheme \<Rightarrow> error + 'a provider_scheme" where
  "set_template t self =
     (if \<not> truthy t
      then Inl (ProviderException (''No template provided for provider '' @ provider_name self))
      else Inr (self\<lparr>template := t\<rparr>))"

definition set_environment :: "pyval \<Rightarrow> 'a provider_scheme \<Rightarrow> error + 'a provider_scheme" where
  "set_environment e self =
     (if \<not> truthy e
      then Inl (ProviderException (''No environment provided for provider '' @ provider_name self))
      else Inr (self\<lparr>environment := e\<rparr>))"

section \<open>The OpenStack driver\<close>

record heat_output =
  output_key :: string
  output_value :: pyval

text \<open>A Heat stack object; \<open>stack_outputs\<close> is \<open>None\<close> when it has no \<^verbatim>\<open>outputs\<close> attribute.\<close>

record heat_stack =
  stack_ident :: string
  stack_status :: string
  stack_outputs :: "heat_output list option"

record heat_client =
  stacks_get :: "history \<Rightarrow> string \<Rightarrow> heat_stack reply"
  stacks_create :: "history \<Rightarrow> string \<Rightarrow> pyval \<Rightarrow> pyval \<Rightarrow> pyval \<Rightarrow> string reply"
  stacks_delete :: "history \<Rightarrow> string \<Rightarrow> unit reply"
  actions_suspend :: "history \<Rightarrow> string \<Rightarrow> unit reply"
  actions_resume :: "history \<Rightarrow> string \<Rightarrow> unit reply"

record nova_client =
  keypairs_create :: "history \<Rightarrow> string \<Rightarrow> pyval \<Rightarrow> unit reply"
  keypairs_delete :: "history \<Rightarrow> string \<Rightarrow> unit reply"
  servers_reboot :: "history \<Rightarrow> pyval \<Rightarrow> unit reply"

record OpenstackProvider = provider +
  heat_c :: heat_client
  nova_c :: nova_client

definition OpenstackProvider_get_stack_outputs :: "heat_stack \<Rightarrow> (string \<times> pyval) list" where
  "OpenstackProvider_get_stack_outputs heat_stack =
     fold (\<lambda>out outputs. AList.update (output_key out) (output_value out) outputs)
       (case stack_outputs heat_stack of None \<Rightarrow> [] | Some outs \<Rightarrow> outs) []"



partial_function (option) resume_stack_wait ::
  "OpenstackProvider \<Rightarrow> string \<Rightarrow> string \<Rightarrow> heat_stack option \<Rightarrow> history \<Rightarrow>
   ((error + string \<times> heat_stack option) \<times> history) option" where
  "resume_stack_wait self name status heat_stack tr =
     (if \<not> sublist FAILED status \<and> status \<noteq> RESUME_COMPLETE then
        (let tr1 = sleep self tr;
             tr2 = tr1 @ [Api ''heat.stacks.get'' [PStr name]] in
         case stacks_get (heat_c self) tr2 name of
           NotFound e \<Rightarrow>
             Some (Inl (ProviderException ''OpenStack Heat stack disappeared during resume.''), tr2)
         | Fault e \<Rightarrow> Some (Inl (ProviderException e), tr2)
         | Ok heat_stack' \<Rightarrow>
             resume_stack_wait self name (stack_status heat_stack') (Some heat_stack') tr2)
      else Some (Inr (status, heat_stack), tr))"








text \<open>The reboot loop of \<^verbatim>\<open>resume_stack\<close>: the first call that fails ends it.\<close>

fun reboot_servers :: "OpenstackProvider \<Rightarrow> pyval list \<Rightarrow> history \<Rightarrow> (error + unit) \<times> history" where
  "reboot_servers self [] tr = (Inr (), tr)"
| "reboot_servers self (server # rest) tr =
     (let tr1 = tr @ [Api ''nova.servers.reboot'' [server, PStr ''HARD'']] in
      case servers_reboot (nova_c self) tr1 server of
        Ok u \<Rightarrow> reboot_servers self rest tr1
      | NotFound e \<Rightarrow> (Inl (ProviderException e), tr1)
      | Fault e \<Rightarrow> (Inl (ProviderException e), tr1))"

text \<open>
  What \<^verbatim>\<open>resume_stack\<close> does once its loop has ended: it raises on \<^verbatim>\<open>FAILED\<close>, and otherwise
  reboots the servers that the outputs list under \<^verbatim>\<open>reboot_on_resume\<close>. \<^verbatim>\<open>heat_stack\<close> is
  bound by the loop's body only, so it is an \<open>option\<close>.
\<close>

definition resume_stack_finish ::
  "OpenstackProvider \<Rightarrow> string \<Rightarrow> heat_stack option \<Rightarrow> history \<Rightarrow> (error + pyval) \<times> history" where
  "resume_stack_finish self status heat_stack tr =
     (if sublist FAILED status then
        (Inl (ProviderException ''Failure resuming OpenStack Heat stack''), tr)
      else
        case heat_stack of
          None \<Rightarrow> (Inl (UnboundLocalError ''heat_stack''), tr)
        | Some hs \<Rightarrow>
            (let outputs = OpenstackProvider_get_stack_outputs hs;
                 res = PDict [(''status'', PStr status), (''outputs'', PDict outputs)] in
             case map_of outputs ''reboot_on_resume'' of
               Some (PList servers) \<Rightarrow>
                 (case reboot_servers self servers tr of
                    (Inl err, tr1) \<Rightarrow> (Inl err, tr1)
                  | (Inr u, tr1) \<Rightarrow> (Inr res, tr1))
             | _ \<Rightarrow> (Inr res, tr)))"

definition OpenstackProvider_resume_stack ::
  "OpenstackProvider \<Rightarrow> string \<Rightarrow> history \<Rightarrow> ((error + pyval) \<times> history) option" where
  "OpenstackProvider_resume_stack self name tr =
     (let tr1 = tr @ [Api ''heat.actions.resume'' [PStr name]] in
      case actions_resume (heat_c self) tr1 name of
        NotFound e \<Rightarrow> Some (Inl (ProviderException e), tr1)
      | Fault e \<Rightarrow> Some (Inl (ProviderException e), tr1)
      | Ok u \<Rightarrow>
          (case resume_stack_wait self name RESUME_IN_PROGRESS None tr1 of
             None \<Rightarrow> None
           | Some (Inl err, tr2) \<Rightarrow> Some (Inl err, tr2)
           | Some (Inr (status, heat_stack), tr2) \<Rightarrow>
               Some (resume_stack_finish self status heat_stack tr2)))"



section \<open>The AWS driver\<close>

text \<open>
  A tag is a dictionary of strings. An EC2 instance object has its tags, the state code
  \<^verbatim>\<open>instance.state.get("Code")\<close> (\<open>None\<close> when the state has none) and its private address.
\<close>

type_synonym tag = "(string \<times> string) list"

record ec2_instance =
  tags :: "tag list"
  state_code :: "int option"
  private_ip_address :: pyval

record ssm_parameter =
  Tags :: "tag list"

record ec2_client =
  import_key_pair :: "history \<Rightarrow> string \<Rightarrow> string \<Rightarrow> unit reply"
  run_instances :: "history \<Rightarrow> pyval list \<Rightarrow> unit reply"
  delete_key_pair :: "history \<Rightarrow> string \<Rightarrow> unit reply"

record ssm_client =
  describe_parameters :: "history \<Rightarrow> ssm_parameter list reply"
  get_parameter :: "history \<Rightarrow> string \<Rightarrow> pyval reply"
  put_parameter :: "history \<Rightarrow> string \<Rightarrow> string \<Rightarrow> tag list \<Rightarrow> unit reply"
  delete_parameter :: "history \<Rightarrow> string \<Rightarrow> unit reply"

record ec2_resource =
  instances_filter :: "history \<Rightarrow> string \<Rightarrow> ec2_instance list reply"
  create_tags :: "history \<Rightarrow> ec2_instance \<Rightarrow> tag list \<Rightarrow> unit reply"
  terminate :: "history \<Rightarrow> ec2_instance \<Rightarrow> unit reply"

record AwsProvider = provider +
  ec2_c :: ec2_client
  ssm_c :: ssm_client
  ec2_r :: ec2_resource

definition AwsProvider_get_deployment_status :: "int option \<Rightarrow> error + string" where
  "AwsProvider_get_deployment_status aws_state =
     (if aws_state = Some 0 then Inr IN_PROGRESS
      else if aws_state = Some 16 then Inr CREATE_COMPLETE
      else if aws_state = Some 32 then Inr (''DELETE_'' @ IN_PROGRESS)
      else if aws_state = Some 48 then Inr DELETE_COMPLETE
      else if aws_state = Some 64 then Inr SUSPEND_IN_PROGRESS
      else if aws_state = Some 80 then Inr SUSPEND_COMPLETE
      else Inl (ProviderException
                  (''Unknown AWS state: '' @ (case aws_state of None \<Rightarrow> ''None'' | Some c \<Rightarrow> str_int c))))"

definition AwsProvider_encode_name :: "string \<Rightarrow> string" where
  "AwsProvider_encode_name name = ''hastexo-'' @ name"

text \<open>The two loops of \<^verbatim>\<open>_get_instance\<close>: over the tags of an instance, and over the instances.\<close>

fun instance_deleted :: "tag list \<Rightarrow> bool \<Rightarrow> error + bool" where
  "instance_deleted [] deleted = Inr deleted"
| "instance_deleted (tag # rest) deleted =
     (case map_of tag ''Key'' of
        None \<Rightarrow> Inl (KeyError ''Key'')
      | Some k \<Rightarrow> instance_deleted rest (if k = ''deleted'' then True else deleted))"

fun first_not_deleted :: "ec2_instance list \<Rightarrow> error + ec2_instance option" where
  "first_not_deleted [] = Inr None"
| "first_not_deleted (instance_itx # rest) =
     (case instance_deleted (tags instance_itx) False of
        Inl err \<Rightarrow> Inl err
      | Inr deleted \<Rightarrow> if \<not> deleted then Inr (Some instance_itx) else first_not_deleted rest)"

text \<open>
  \<^verbatim>\<open>_get_instance\<close> looks for the first instance without a \<^verbatim>\<open>deleted\<close> tag and, when there
  is one, returns \<^verbatim>\<open>ec2_instances[0]\<close>.
\<close>

definition AwsProvider_get_instance ::
  "AwsProvider \<Rightarrow> string \<Rightarrow> history \<Rightarrow> (error + ec2_instance option) \<times> history" where
  "AwsProvider_get_instance self name tr =
     (let deployment_name = AwsProvider_encode_name name;
          tr1 = tr @ [Api ''ec2.instances.filter'' [PStr ''key-name'', PStr deployment_name]] in
      case instances_filter (ec2_r self) tr1 deployment_name of
        NotFound e \<Rightarrow> (Inl (BackendError e), tr1)
      | Fault e \<Rightarrow> (Inl (BackendError e), tr1)
      | Ok ec2_instances \<Rightarrow>
          (case first_not_deleted ec2_instances of
             Inl err \<Rightarrow> (Inl err, tr1)
           | Inr None \<Rightarrow> (Inr None, tr1)
           | Inr (Some instance) \<Rightarrow>
               (case ec2_instances of
                  [] \<Rightarrow> (Inl (IndexError ''ec2_instances''), tr1)
                | first # rest \<Rightarrow> (Inr (Some first), tr1))))"

text \<open>
  \<^verbatim>\<open>_get_instance_outputs\<close>: any exception of \<^verbatim>\<open>get_parameter\<close> gives the empty dictionary;
  the reads of the response stand after the handler.
\<close>

definition AwsProvider_get_instance_outputs ::
  "AwsProvider \<Rightarrow> string \<Rightarrow> history \<Rightarrow> (error + pyval) \<times> history" where
  "AwsProvider_get_instance_outputs self name tr =
     (let deployment_name = AwsProvider_encode_name name in
      case AwsProvider_get_instance self name tr of
        (Inl err, tr1) \<Rightarrow> (Inl err, tr1)
      | (Inr None, tr1) \<Rightarrow> (Inr (PDict []), tr1)
      | (Inr (Some instance), tr1) \<Rightarrow>
          (let tr2 = tr1 @ [Api ''ssm.get_parameter'' [PStr deployment_name]] in
           case get_parameter (ssm_c self) tr2 deployment_name of
             NotFound e \<Rightarrow> (Inr (PDict []), tr2)
           | Fault e \<Rightarrow> (Inr (PDict []), tr2)
           | Ok param \<Rightarrow>
               (case py_get param ''Parameter'' of
                  Inl err \<Rightarrow> (Inl err, tr2)
                | Inr parameter \<Rightarrow>
                    (case py_get parameter ''Value'' of
                       Inl err \<Rightarrow> (Inl err, tr2)
                     | Inr v \<Rightarrow>
                         (Inr (PDict [(''public_ip'', private_ip_address instance),
                                      (''private_key'', v),
                                      (''password'', PStr []),
                                      (''reboot_on_resume'', PNone)]),
                          tr2)))))"

definition AwsProvider_get_stack ::
  "AwsProvider \<Rightarrow> string \<Rightarrow> history \<Rightarrow> (error + pyval) \<times> history" where
  "AwsProvider_get_stack self name tr =
     (case AwsProvider_get_instance self name tr of
        (Inl err, tr1) \<Rightarrow> (Inl err, tr1)
      | (Inr None, tr1) \<Rightarrow>
          (Inr (PDict [(''status'', PStr DELETE_COMPLETE), (''outputs'', PDict [])]), tr1)
      | (Inr (Some instance), tr1) \<Rightarrow>
          (case AwsProvider_get_deployment_status (state_code instance) of
             Inl err \<Rightarrow> (Inl err, tr1)
           | Inr status \<Rightarrow>
               (case AwsProvider_get_instance_outputs self name tr1 of
                  (Inl err, tr2) \<Rightarrow> (Inl err, tr2)
                | (Inr outputs, tr2) \<Rightarrow>
                    (Inr (PDict [(''status'', PStr status), (''outputs'', outputs)]), tr2))))"








text \<open>
  The loop that waits for the address: \<^verbatim>\<open>count\<close> starts at 0 and the loop gives up when
  it reaches 6. \<^verbatim>\<open>res["outputs"].get("public_ip")\<close> is read through \<open>py_item\<close> and
  \<open>py_get\<close>.
\<close>

partial_function (option) create_stack_wait_ip ::
  "AwsProvider \<Rightarrow> string \<Rightarrow> int \<Rightarrow> history \<Rightarrow> ((error + pyval) \<times> history) option" where
  "create_stack_wait_ip self name count tr =
     (case AwsProvider_get_stack self name tr of
        (Inl err, tr1) \<Rightarrow> Some (Inl err, tr1)
      | (Inr res, tr1) \<Rightarrow>
          (case py_item res ''outputs'' of
             Inl err \<Rightarrow> Some (Inl err, tr1)
           | Inr outputs \<Rightarrow>
               (case py_get outputs ''public_ip'' of
                  Inl err \<Rightarrow> Some (Inl err, tr1)
                | Inr public_ip \<Rightarrow>
                    if truthy public_ip then Some (Inr res, tr1)
                    else
                      (let tr2 = tr1 @ [Sleep 5];
                           count' = count + 1 in
                       if count' = 6 then
                         Some (Inl (ProviderException
                                 ''Could not determine private IP of instance within reasonable time''),
                               tr2)
                       else create_stack_wait_ip self name count' tr2))))"

text \<open>
  One attempt of this loop that finds no address leaves the history of \<^verbatim>\<open>get_stack\<close>
  followed by a sleep of five seconds.
\<close>

definition reports_no_ip :: "AwsProvider \<Rightarrow> string \<Rightarrow> history \<Rightarrow> bool" where
  "reports_no_ip self name tr =
     (case AwsProvider_get_stack self name tr of
        (Inl err, tr1) \<Rightarrow> False
      | (Inr res, tr1) \<Rightarrow>
          (case py_item res ''outputs'' of
             Inl err \<Rightarrow> False
           | Inr outputs \<Rightarrow>
               (case py_get outputs ''public_ip'' of
                  Inl err \<Rightarrow> False
                | Inr public_ip \<Rightarrow> \<not> truthy public_ip)))"

definition after_attempt :: "AwsProvider \<Rightarrow> string \<Rightarrow> history \<Rightarrow> history" where
  "after_attempt self name tr = snd (AwsProvider_get_stack self name tr) @ [Sleep 5]"





section \<open>The Google Cloud driver\<close>

text \<open>
  What Deployment Manager and Compute Engine return. A deployment has a name, may have an
  \<^verbatim>\<open>update\<close> (which may have a \<^verbatim>\<open>manifest\<close>), a \<^verbatim>\<open>manifest\<close> and an \<^verbatim>\<open>operation\<close>. A listed
  resource may lack its \<^verbatim>\<open>name\<close> or its \<^verbatim>\<open>finalProperties\<close>: the code catches the
  \<^verbatim>\<open>KeyError\<close>. A server may lack its \<^verbatim>\<open>status\<close>. The response to \<^verbatim>\<open>operations().get\<close> has a
  status and, when it has an \<^verbatim>\<open>error\<close>, the messages of its \<^verbatim>\<open>errors\<close>.
\<close>

record gc_operation =
  operationType :: string
  operation_status :: string

record gc_deployment =
  deployment_name :: string
  deployment_update :: "string option option"
  deployment_manifest :: "string option"
  deployment_operation :: "gc_operation option"


























section \<open>The provider facade\<close>













section \<open>Concrete backends\<close>

text \<open>
  Small backends on which the theorems below are instantiated: a Heat that knows no
  stack, a Heat that follows a script of statuses, an EC2 without instances, a
  Deployment Manager without deployments.
\<close>

definition example_keypair :: keypair where
  "example_keypair = \<lparr>public_key = ''ssh-rsa AAAA'', private_key = ''PRIVATE KEY''\<rparr>"

definition nova_plain :: nova_client where
  "nova_plain =
     \<lparr>keypairs_create = (\<lambda>tr name key. Ok ()),
      keypairs_delete = (\<lambda>tr name. NotFound ''no such keypair''),
      servers_reboot = (\<lambda>tr server. Ok ())\<rparr>"

definition heat_gone :: heat_client where
  "heat_gone =
     \<lparr>stacks_get = (\<lambda>tr name. NotFound ''404''),
      stacks_create = (\<lambda>tr name t e run. Ok ''stack-1''),
      stacks_delete = (\<lambda>tr name. Ok ()),
      actions_suspend = (\<lambda>tr name. Ok ()),
      actions_resume = (\<lambda>tr name. Ok ())\<rparr>"

definition openstack_gone :: OpenstackProvider where
  "openstack_gone =
     \<lparr>provider_name = ''lab'', sleep_seconds = 10, credentials = [],
      template = PStr ''heat_template_version: 2016-04-08'', environment = PStr ''parameters: {}'',
      generate_key_pair = (\<lambda>tr encodeb64 key_type. example_keypair),
      yaml_safe_load = (\<lambda>text. None),
      heat_c = heat_gone, nova_c = nova_plain\<rparr>"

definition ec2_empty :: ec2_resource where
  "ec2_empty =
     \<lparr>instances_filter = (\<lambda>tr key_name. Ok []),
      create_tags = (\<lambda>tr instance ts. Ok ()),
      terminate = (\<lambda>tr instance. Ok ())\<rparr>"

definition ec2_client_plain :: ec2_client where
  "ec2_client_plain =
     \<lparr>import_key_pair = (\<lambda>tr name key. Ok ()),
      run_instances = (\<lambda>tr args. Ok ()),
      delete_key_pair = (\<lambda>tr name. Ok ())\<rparr>"

definition ssm_plain :: ssm_client where
  "ssm_plain =
     \<lparr>describe_parameters = (\<lambda>tr. Ok []),
      get_parameter = (\<lambda>tr name. Ok (PDict [(''Parameter'', PDict [(''Value'', PStr ''PRIVATE KEY'')])])),
      put_parameter = (\<lambda>tr name v ts. Ok ()),
      delete_parameter = (\<lambda>tr name. Ok ())\<rparr>"

definition aws_gone :: AwsProvider where
  "aws_gone =
     \<lparr>provider_name = ''lab'', sleep_seconds = 10, credentials = [],
      template = PStr ''ami_id: ami-1'', environment = PNone,
      generate_key_pair = (\<lambda>tr encodeb64 key_type. example_keypair),
      yaml_safe_load = (\<lambda>text. Some (PDict [(''ami_id'', PStr ''ami-1'')])),
      ec2_c = ec2_client_plain, ssm_c = ssm_plain, ec2_r = ec2_empty\<rparr>"






text \<open>An EC2 with one running instance, and one in a state the driver does not know.\<close>

definition running_instance :: ec2_instance where
  "running_instance =
     \<lparr>tags = [[(''Key'', ''name''), (''Value'', ''lab-1'')]], state_code = Some 16,
      private_ip_address = PStr ''10.0.0.5''\<rparr>"

definition aws_running :: AwsProvider where
  "aws_running =
     aws_gone\<lparr>ec2_r := ec2_empty\<lparr>instances_filter := (\<lambda>tr key_name. Ok [running_instance])\<rparr>\<rparr>"










text \<open>
  An EC2 whose instance gets its address after two sleeps, and a Heat that answers by
  the number of sleeps so far: a script of statuses, the last one repeated.
\<close>

definition booting_instance :: ec2_instance where
  "booting_instance =
     \<lparr>tags = [[(''Key'', ''name''), (''Value'', ''lab-1'')]], state_code = Some 0,
      private_ip_address = PNone\<rparr>"

definition aws_booting :: AwsProvider where
  "aws_booting =
     aws_gone\<lparr>ec2_r := ec2_empty\<lparr>instances_filter :=
       (\<lambda>tr key_name. if length (sleeps tr) < 2 then Ok [booting_instance]
                       else Ok [running_instance])\<rparr>\<rparr>"

fun scripted :: "heat_stack list \<Rightarrow> nat \<Rightarrow> heat_stack reply" where
  "scripted [] n = NotFound ''404''"
| "scripted [s] n = Ok s"
| "scripted (s # rest) 0 = Ok s"
| "scripted (s # rest) (Suc n) = scripted rest n"

definition heat_scripted :: "heat_stack list \<Rightarrow> heat_client" where
  "heat_scripted script =
     heat_gone\<lparr>stacks_get := (\<lambda>tr name. scripted script (length (sleeps tr) - 1))\<rparr>"

definition stack_in :: "string \<Rightarrow> heat_stack" where
  "stack_in st = \<lparr>stack_ident = ''stack-1'', stack_status = st, stack_outputs = None\<rparr>"

definition resumed_stack :: heat_stack where
  "resumed_stack =
     \<lparr>stack_ident = ''stack-1'', stack_status = ''RESUME_COMPLETE'',
      stack_outputs =
        Some [\<lparr>output_key = ''public_ip'', output_value = PStr ''192.0.2.7''\<rparr>,
              \<lparr>output_key = ''reboot_on_resume'',
               output_value = PList [PStr ''srv-1'', PStr ''srv-2'']\<rparr>]\<rparr>"

definition openstack_scripted :: "heat_stack list \<Rightarrow> OpenstackProvider" where
  "openstack_scripted script = openstack_gone\<lparr>heat_c := heat_scripted script\<rparr>"

definition filter_call :: event where
  "filter_call = Api ''ec2.instances.filter'' [PStr ''key-name'', PStr ''hastexo-lab-1'']"

definition secret_call :: event where
  "secret_call = Api ''ssm.get_parameter'' [PStr ''hastexo-lab-1'']"

definition running_details :: pyval where
  "running_details =
     PDict [(''status'', PStr ''CREATE_COMPLETE''),
            (''outputs'', PDict [(''public_ip'', PStr ''10.0.0.5''),
                                 (''private_key'', PStr ''PRIVATE KEY''),
                                 (''password'', PStr []),
                                 (''reboot_on_resume'', PNone)])]"

text \<open>The events of the OpenStack examples.\<close>

definition heat_get_call :: "string \<Rightarrow> event" where
  "heat_get_call name = Api ''heat.stacks.get'' [PStr name]"


definition reboot_call :: "string \<Rightarrow> event" where
  "reboot_call server = Api ''nova.servers.reboot'' [PStr server, PStr ''HARD'']"

section \<open>Facts about the status constants\<close>



section \<open>Fetching a stack that does not exist\<close>



section \<open>The status a driver reports\<close>











section \<open>The outputs a driver reports\<close>







section \<open>Listing the AWS stacks\<close>








section \<open>Creating an AWS stack from an incomplete template\<close>




section \<open>Building a driver from the settings\<close>









section \<open>Waiting for the address of an AWS instance\<close>

lemma wait_ip_total_from:
  "k \<le> 5 \<Longrightarrow> \<exists>r. create_stack_wait_ip self name (5 - int k) tr = Some r"
proof (induction k arbitrary: tr)
  case 0
  show ?case
    by (subst create_stack_wait_ip.simps)
       (auto simp: Let_def split: prod.splits sum.splits)
next
  case (Suc k)
  then have ih: "\<And>tr'. \<exists>r. create_stack_wait_ip self name (5 - int k) tr' = Some r" by simp
  have eq: "5 - int (Suc k) + 1 = 5 - int k" by simp
  from Suc.prems have ne: "5 - int k \<noteq> 6" by simp
  show ?case
    apply (subst create_stack_wait_ip.simps)
    apply (simp only: Let_def eq)
    using ih ne by (auto split: prod.splits sum.splits)
qed

lemma wait_ip_step:
  "reports_no_ip self name tr \<Longrightarrow> count + 1 \<noteq> 6 \<Longrightarrow>
   create_stack_wait_ip self name count tr
     = create_stack_wait_ip self name (count + 1) (after_attempt self name tr)"
  by (subst create_stack_wait_ip.simps)
     (auto simp: reports_no_ip_def after_attempt_def Let_def split: prod.splits sum.splits)

lemma wait_ip_last:
  "reports_no_ip self name tr \<Longrightarrow>
   create_stack_wait_ip self name 5 tr
     = Some (Inl (ProviderException
                    ''Could not determine private IP of instance within reasonable time''),
             after_attempt self name tr)"
  by (subst create_stack_wait_ip.simps)
     (auto simp: reports_no_ip_def after_attempt_def Let_def split: prod.splits sum.splits)

lemma wait_ip_found:
  "AwsProvider_get_stack self name tr = (Inr res, tr1) \<Longrightarrow> py_item res ''outputs'' = Inr outputs \<Longrightarrow>
   py_get outputs ''public_ip'' = Inr ip \<Longrightarrow> truthy ip \<Longrightarrow>
   create_stack_wait_ip self name count tr = Some (Inr res, tr1)"
  by (subst create_stack_wait_ip.simps) simp

lemma wait_ip_steps:
  "k \<le> 5 \<Longrightarrow> \<forall>i<k. reports_no_ip self name ((after_attempt self name ^^ i) tr) \<Longrightarrow>
   create_stack_wait_ip self name 0 tr
     = create_stack_wait_ip self name (int k) ((after_attempt self name ^^ k) tr)"
proof (induction k)
  case 0
  show ?case by simp
next
  case (Suc k)
  then have a: "create_stack_wait_ip self name 0 tr
     = create_stack_wait_ip self name (int k) ((after_attempt self name ^^ k) tr)" by simp
  from Suc.prems have b: "reports_no_ip self name ((after_attempt self name ^^ k) tr)" by simp
  from Suc.prems have c: "int k + 1 \<noteq> 6" by simp
  from wait_ip_step [OF b c] a show ?case by (simp add: add.commute)
qed

lemma sleeps_append [simp]: "sleeps (xs @ ys) = sleeps xs @ sleeps ys"
  by (simp add: sleeps_def)

lemma sleeps_single [simp]: "sleeps [Api f args] = []" "sleeps [Sleep s] = [s]"
  by (simp_all add: sleeps_def)

lemma aws_get_instance_sleeps:
  "sleeps (snd (AwsProvider_get_instance self name tr)) = sleeps tr"
  by (simp add: AwsProvider_get_instance_def Let_def
      split: reply.splits sum.splits option.splits list.splits)

lemma aws_get_instance_outputs_sleeps:
  "sleeps (snd (AwsProvider_get_instance_outputs self name tr)) = sleeps tr"
proof -
  obtain r tr1 where g: "AwsProvider_get_instance self name tr = (r, tr1)"
    by (cases "AwsProvider_get_instance self name tr") auto
  then have "sleeps tr1 = sleeps tr" using aws_get_instance_sleeps [of self name tr] by simp
  with g show ?thesis
    by (simp add: AwsProvider_get_instance_outputs_def Let_def
        split: reply.splits sum.splits option.splits)
qed

lemma aws_get_stack_sleeps:
  "sleeps (snd (AwsProvider_get_stack self name tr)) = sleeps tr"
proof -
  obtain r tr1 where g: "AwsProvider_get_instance self name tr = (r, tr1)"
    by (cases "AwsProvider_get_instance self name tr") auto
  then have s1: "sleeps tr1 = sleeps tr" using aws_get_instance_sleeps [of self name tr] by simp
  obtain r2 tr2 where o: "AwsProvider_get_instance_outputs self name tr1 = (r2, tr2)"
    by (cases "AwsProvider_get_instance_outputs self name tr1") auto
  then have "sleeps tr2 = sleeps tr1"
    using aws_get_instance_outputs_sleeps [of self name tr1] by simp
  with g o s1 show ?thesis
    by (simp add: AwsProvider_get_stack_def split: sum.splits option.splits)
qed

lemma after_attempt_sleeps:
  "sleeps ((after_attempt self name ^^ k) tr) = sleeps tr @ replicate k 5"
  by (induction k) (simp_all add: after_attempt_def aws_get_stack_sleeps replicate_append_same)

text \<open>
  C7. The loop of \<^verbatim>\<open>AwsProvider.create_stack\<close> that waits for the address always returns.
  When none of its attempts finds a \<^verbatim>\<open>public_ip\<close>, it makes six attempts, each followed by
  a sleep of five seconds, and raises \<open>ProviderException\<close>. When the attempts before the
  \<open>k\<close>-th find none and the \<open>k\<close>-th, one of the six, finds one, it returns the result of
  that \<^verbatim>\<open>get_stack\<close>.
\<close>

theorem C7_wait_for_address:
  "(\<exists>r. create_stack_wait_ip aws name 0 tr = Some r)
   \<and> ((\<forall>k<6. reports_no_ip aws name ((after_attempt aws name ^^ k) tr)) \<longrightarrow>
        create_stack_wait_ip aws name 0 tr
          = Some (Inl (ProviderException
                         ''Could not determine private IP of instance within reasonable time''),
                  (after_attempt aws name ^^ 6) tr)
        \<and> sleeps ((after_attempt aws name ^^ 6) tr) = sleeps tr @ replicate 6 5)
   \<and> (k < 6 \<and> (\<forall>i<k. reports_no_ip aws name ((after_attempt aws name ^^ i) tr))
       \<and> AwsProvider_get_stack aws name ((after_attempt aws name ^^ k) tr) = (Inr res, tr1)
       \<and> py_item res ''outputs'' = Inr outputs \<and> py_get outputs ''public_ip'' = Inr ip
       \<and> truthy ip \<longrightarrow>
        create_stack_wait_ip aws name 0 tr = Some (Inr res, tr1))"
proof (intro conjI impI)
  show "\<exists>r. create_stack_wait_ip aws name 0 tr = Some r"
    using wait_ip_total_from [of 5 aws name tr] by simp
next
  assume a: "\<forall>k<6. reports_no_ip aws name ((after_attempt aws name ^^ k) tr)"
  then have "create_stack_wait_ip aws name 0 tr
     = create_stack_wait_ip aws name (int 5) ((after_attempt aws name ^^ 5) tr)"
    using wait_ip_steps [of 5 aws name tr] by simp
  moreover from a have "reports_no_ip aws name ((after_attempt aws name ^^ 5) tr)" by simp
  ultimately have "create_stack_wait_ip aws name 0 tr
     = Some (Inl (ProviderException
                    ''Could not determine private IP of instance within reasonable time''),
             after_attempt aws name ((after_attempt aws name ^^ 5) tr))"
    using wait_ip_last [of aws name "(after_attempt aws name ^^ 5) tr"] by simp
  moreover have "(after_attempt aws name ^^ 6) tr
     = after_attempt aws name ((after_attempt aws name ^^ 5) tr)"
    by (simp add: eval_nat_numeral)
  ultimately show "create_stack_wait_ip aws name 0 tr
          = Some (Inl (ProviderException
                         ''Could not determine private IP of instance within reasonable time''),
                  (after_attempt aws name ^^ 6) tr)" by simp
next
  show "sleeps ((after_attempt aws name ^^ 6) tr) = sleeps tr @ replicate 6 5"
    by (rule after_attempt_sleeps)
next
  assume a: "k < 6 \<and> (\<forall>i<k. reports_no_ip aws name ((after_attempt aws name ^^ i) tr))
       \<and> AwsProvider_get_stack aws name ((after_attempt aws name ^^ k) tr) = (Inr res, tr1)
       \<and> py_item res ''outputs'' = Inr outputs \<and> py_get outputs ''public_ip'' = Inr ip
       \<and> truthy ip"
  then have "create_stack_wait_ip aws name 0 tr
     = create_stack_wait_ip aws name (int k) ((after_attempt aws name ^^ k) tr)"
    using wait_ip_steps [of k aws name tr] by simp
  with a show "create_stack_wait_ip aws name 0 tr = Some (Inr res, tr1)"
    using wait_ip_found [of aws name "(after_attempt aws name ^^ k) tr" res tr1 outputs ip "int k"]
    by simp
qed

lemmas aws_example_defs =
  AwsProvider_get_stack_def AwsProvider_get_instance_def AwsProvider_get_instance_outputs_def
  AwsProvider_get_deployment_status_def AwsProvider_encode_name_def
  aws_booting_def aws_running_def aws_gone_def ec2_empty_def ssm_plain_def ec2_client_plain_def
  booting_instance_def running_instance_def filter_call_def secret_call_def running_details_def
  py_item_def py_get_def dict_get_def Let_def status_defs sleeps_def

theorem C7_wait_for_address_witness:
  "(\<forall>tr. reports_no_ip aws_gone ''lab-1'' tr)
   \<and> create_stack_wait_ip aws_gone ''lab-1'' 0 []
       = Some (Inl (ProviderException
                      ''Could not determine private IP of instance within reasonable time''),
               [filter_call, Sleep 5, filter_call, Sleep 5, filter_call, Sleep 5,
                filter_call, Sleep 5, filter_call, Sleep 5, filter_call, Sleep 5])
   \<and> sleeps [filter_call, Sleep 5, filter_call, Sleep 5, filter_call, Sleep 5,
              filter_call, Sleep 5, filter_call, Sleep 5, filter_call, Sleep 5]
       = [5, 5, 5, 5, 5, 5]
   \<and> reports_no_ip aws_booting ''lab-1'' []
   \<and> reports_no_ip aws_booting ''lab-1'' [filter_call, filter_call, secret_call, Sleep 5]
   \<and> AwsProvider_get_stack aws_booting ''lab-1''
        [filter_call, filter_call, secret_call, Sleep 5,
         filter_call, filter_call, secret_call, Sleep 5]
       = (Inr running_details,
          [filter_call, filter_call, secret_call, Sleep 5,
           filter_call, filter_call, secret_call, Sleep 5,
           filter_call, filter_call, secret_call])
   \<and> create_stack_wait_ip aws_booting ''lab-1'' 0 []
       = Some (Inr running_details,
               [filter_call, filter_call, secret_call, Sleep 5,
                filter_call, filter_call, secret_call, Sleep 5,
                filter_call, filter_call, secret_call])"
proof -
  have gone: "\<forall>tr. reports_no_ip aws_gone ''lab-1'' tr"
    by (simp add: reports_no_ip_def aws_example_defs)
  have gone6: "(after_attempt aws_gone ''lab-1'' ^^ 6) []
     = [filter_call, Sleep 5, filter_call, Sleep 5, filter_call, Sleep 5,
        filter_call, Sleep 5, filter_call, Sleep 5, filter_call, Sleep 5]"
    by (simp add: eval_nat_numeral after_attempt_def aws_example_defs)
  have timeout: "create_stack_wait_ip aws_gone ''lab-1'' 0 []
       = Some (Inl (ProviderException
                      ''Could not determine private IP of instance within reasonable time''),
               [filter_call, Sleep 5, filter_call, Sleep 5, filter_call, Sleep 5,
                filter_call, Sleep 5, filter_call, Sleep 5, filter_call, Sleep 5])
     \<and> sleeps [filter_call, Sleep 5, filter_call, Sleep 5, filter_call, Sleep 5,
              filter_call, Sleep 5, filter_call, Sleep 5, filter_call, Sleep 5]
       = [5, 5, 5, 5, 5, 5]"
    using C7_wait_for_address [where aws = aws_gone and name = "''lab-1''" and tr = "[]"
        and k = 0] gone gone6
    by (simp add: eval_nat_numeral sleeps_def)
  have b0: "reports_no_ip aws_booting ''lab-1'' []"
    by (simp add: reports_no_ip_def aws_example_defs)
  have a1: "after_attempt aws_booting ''lab-1'' [] = [filter_call, filter_call, secret_call, Sleep 5]"
    by (simp add: after_attempt_def aws_example_defs)
  have b1: "reports_no_ip aws_booting ''lab-1'' [filter_call, filter_call, secret_call, Sleep 5]"
    by (simp add: reports_no_ip_def aws_example_defs)
  have a2: "after_attempt aws_booting ''lab-1'' [filter_call, filter_call, secret_call, Sleep 5]
     = [filter_call, filter_call, secret_call, Sleep 5,
        filter_call, filter_call, secret_call, Sleep 5]"
    by (simp add: after_attempt_def aws_example_defs)
  have g2: "AwsProvider_get_stack aws_booting ''lab-1''
        [filter_call, filter_call, secret_call, Sleep 5,
         filter_call, filter_call, secret_call, Sleep 5]
       = (Inr running_details,
          [filter_call, filter_call, secret_call, Sleep 5,
           filter_call, filter_call, secret_call, Sleep 5,
           filter_call, filter_call, secret_call])"
    by (simp add: aws_example_defs)
  have before: "\<forall>i<2. reports_no_ip aws_booting ''lab-1'' ((after_attempt aws_booting ''lab-1'' ^^ i) [])"
  proof (intro allI impI)
    fix i :: nat
    assume "i < 2"
    then have "i = 0 \<or> i = 1" by arith
    with b0 b1 a1 show "reports_no_ip aws_booting ''lab-1'' ((after_attempt aws_booting ''lab-1'' ^^ i) [])"
      by auto
  qed
  have at2: "(after_attempt aws_booting ''lab-1'' ^^ 2) []
     = [filter_call, filter_call, secret_call, Sleep 5,
        filter_call, filter_call, secret_call, Sleep 5]"
    by (simp add: eval_nat_numeral a1 a2)
  have found: "create_stack_wait_ip aws_booting ''lab-1'' 0 []
       = Some (Inr running_details,
               [filter_call, filter_call, secret_call, Sleep 5,
                filter_call, filter_call, secret_call, Sleep 5,
                filter_call, filter_call, secret_call])"
    using C7_wait_for_address [where aws = aws_booting and name = "''lab-1''" and tr = "[]"
        and k = 2 and res = running_details and ip = "PStr ''10.0.0.5''"
        and outputs = "PDict [(''public_ip'', PStr ''10.0.0.5''),
                                 (''private_key'', PStr ''PRIVATE KEY''),
                                 (''password'', PStr []),
                                 (''reboot_on_resume'', PNone)]"
        and ?tr1.0 = "[filter_call, filter_call, secret_call, Sleep 5,
                filter_call, filter_call, secret_call, Sleep 5,
                filter_call, filter_call, secret_call]"] before at2 g2
    by (simp add: running_details_def py_item_def py_get_def dict_get_def)
  from gone timeout b0 b1 g2 found show ?thesis by simp
qed

section \<open>The polling loops of the OpenStack driver\<close>



lemma resume_wait_step:
  "\<not> sublist FAILED status \<Longrightarrow> status \<noteq> RESUME_COMPLETE \<Longrightarrow>
   stacks_get (heat_c os) (sleep os tr @ [Api ''heat.stacks.get'' [PStr name]]) name = Ok fetched \<Longrightarrow>
   resume_stack_wait os name status heat_stack tr
     = resume_stack_wait os name (stack_status fetched) (Some fetched)
         (sleep os tr @ [Api ''heat.stacks.get'' [PStr name]])"
  by (subst resume_stack_wait.simps) (simp add: Let_def)

lemma resume_wait_exit:
  "sublist FAILED status \<or> status = RESUME_COMPLETE \<Longrightarrow>
   resume_stack_wait os name status heat_stack tr = Some (Inr (status, heat_stack), tr)"
  by (subst resume_stack_wait.simps) auto









lemma scripted_get:
  "stacks_get (heat_c (openstack_scripted script)) tr name = scripted script (length (sleeps tr) - 1)"
  by (simp add: openstack_scripted_def heat_scripted_def heat_gone_def openstack_gone_def)

lemma scripted_provider [simp]:
  "sleep (openstack_scripted script) tr = tr @ [Sleep 10]"
  "actions_suspend (heat_c (openstack_scripted script)) tr name = Ok ()"
  "actions_resume (heat_c (openstack_scripted script)) tr name = Ok ()"
  "stacks_delete (heat_c (openstack_scripted script)) tr name = Ok ()"
  "stacks_create (heat_c (openstack_scripted script)) tr name t e run = Ok ''stack-1''"
  "keypairs_delete (nova_c (openstack_scripted script)) tr name = NotFound ''no such keypair''"
  "servers_reboot (nova_c (openstack_scripted script)) tr server = Ok ()"
  "template (openstack_scripted script) = PStr ''heat_template_version: 2016-04-08''"
  "environment (openstack_scripted script) = PStr ''parameters: {}''"
  by (simp_all add: openstack_scripted_def heat_scripted_def heat_gone_def openstack_gone_def
      nova_plain_def sleep_def)

lemma sleeps_Nil [simp]: "sleeps [] = []"
  by (simp add: sleeps_def)

lemma sleeps_Cons [simp]:
  "sleeps (Sleep s # tr) = s # sleeps tr" "sleeps (Api f args # tr) = sleeps tr"
  by (simp_all add: sleeps_def)



section \<open>Rebooting servers after a resume\<close>

lemma calls_append [simp]: "calls f (xs @ ys) = calls f xs @ calls f ys"
  by (simp add: calls_def)

lemma calls_single [simp]:
  "calls f [Sleep s] = []" "calls f [Api g args] = (if g = f then [args] else [])"
  by (simp_all add: calls_def)

lemma resume_wait_reboots:
  assumes "resume_stack_wait os name status heat_stack tr = Some y"
  shows "calls ''nova.servers.reboot'' (snd y) = calls ''nova.servers.reboot'' tr"
proof (rule resume_stack_wait.raw_induct
    [where P = "\<lambda>os name status heat_stack tr y.
                  calls ''nova.servers.reboot'' (snd y) = calls ''nova.servers.reboot'' tr",
     OF _ assms])
  fix loop os name status heat_stack tr y
  assume IH: "\<And>a b c d e y. loop a b c d e = Some y \<Longrightarrow>
                calls ''nova.servers.reboot'' (snd y) = calls ''nova.servers.reboot'' e"
    and body: "(if \<not> sublist FAILED status \<and> status \<noteq> RESUME_COMPLETE then
        (let tr1 = sleep os tr;
             tr2 = tr1 @ [Api ''heat.stacks.get'' [PStr name]] in
         case stacks_get (heat_c os) tr2 name of
           NotFound e \<Rightarrow>
             Some (Inl (ProviderException ''OpenStack Heat stack disappeared during resume.''), tr2)
         | Fault e \<Rightarrow> Some (Inl (ProviderException e), tr2)
         | Ok heat_stack' \<Rightarrow>
             loop os name (stack_status heat_stack') (Some heat_stack') tr2)
      else Some (Inr (status, heat_stack), tr)) = Some y"
  show "calls ''nova.servers.reboot'' (snd y) = calls ''nova.servers.reboot'' tr"
  proof (cases "\<not> sublist FAILED status \<and> status \<noteq> RESUME_COMPLETE")
    case False
    with body show ?thesis by auto
  next
    case True
    let ?tr2 = "sleep os tr @ [Api ''heat.stacks.get'' [PStr name]]"
    have t: "calls ''nova.servers.reboot'' ?tr2 = calls ''nova.servers.reboot'' tr"
      by (simp add: sleep_def calls_def)
    show ?thesis
    proof (cases "stacks_get (heat_c os) ?tr2 name")
      case (Ok fetched)
      with True body have "loop os name (stack_status fetched) (Some fetched) ?tr2 = Some y"
        by (simp add: Let_def)
      then have "calls ''nova.servers.reboot'' (snd y) = calls ''nova.servers.reboot'' ?tr2"
        by (rule IH)
      with t show ?thesis by simp
    next
      case (NotFound e)
      with True body t show ?thesis by (auto simp: Let_def)
    next
      case (Fault e)
      with True body t show ?thesis by (auto simp: Let_def)
    qed
  qed
qed

lemma reboot_servers_history:
  "reboot_servers os servers tr = (Inr u, tr') \<Longrightarrow>
   tr' = tr @ map (\<lambda>server. Api ''nova.servers.reboot'' [server, PStr ''HARD'']) servers"
proof (induction servers arbitrary: tr)
  case Nil
  then show ?case by simp
next
  case (Cons server rest)
  let ?tr1 = "tr @ [Api ''nova.servers.reboot'' [server, PStr ''HARD'']]"
  from Cons.prems have "reboot_servers os rest ?tr1 = (Inr u, tr')"
    by (auto simp: Let_def split: reply.splits)
  then have "tr' = ?tr1 @ map (\<lambda>server. Api ''nova.servers.reboot'' [server, PStr ''HARD'']) rest"
    by (rule Cons.IH)
  then show ?case by simp
qed

lemma calls_reboots:
  "calls ''nova.servers.reboot''
     (map (\<lambda>server. Api ''nova.servers.reboot'' [server, PStr ''HARD'']) servers)
   = map (\<lambda>server. [server, PStr ''HARD'']) servers"
  by (induction servers) (simp_all add: calls_def)

lemma resume_finish_reboots:
  assumes "resume_stack_finish os status heat_stack tr = (Inr res, tr')"
  shows "\<exists>outs. res = PDict [(''status'', PStr status), (''outputs'', PDict outs)]
           \<and> tr' = tr @ map (\<lambda>server. Api ''nova.servers.reboot'' [server, PStr ''HARD''])
                          (case map_of outs ''reboot_on_resume'' of
                             Some (PList servers) \<Rightarrow> servers
                           | _ \<Rightarrow> [])"
proof -
  from assms obtain hs where hs: "heat_stack = Some hs" and nf: "\<not> sublist FAILED status"
    by (auto simp: resume_stack_finish_def split: if_splits option.splits)
  let ?outs = "OpenstackProvider_get_stack_outputs hs"
  show ?thesis
  proof (cases "\<exists>servers. map_of ?outs ''reboot_on_resume'' = Some (PList servers)")
    case True
    then obtain servers where s: "map_of ?outs ''reboot_on_resume'' = Some (PList servers)" by blast
    obtain r t where rb: "reboot_servers os servers tr = (r, t)"
      by (cases "reboot_servers os servers tr") auto
    with assms hs nf s obtain u where "r = Inr u" "t = tr'"
       "res = PDict [(''status'', PStr status), (''outputs'', PDict ?outs)]"
      by (auto simp: resume_stack_finish_def Let_def split: sum.splits)
    with rb s reboot_servers_history [of os servers tr u tr'] show ?thesis by auto
  next
    case False
    with assms hs nf have "res = PDict [(''status'', PStr status), (''outputs'', PDict ?outs)] \<and> tr' = tr"
      by (auto simp: resume_stack_finish_def Let_def split: option.splits pyval.splits)
    moreover from False have "(case map_of ?outs ''reboot_on_resume'' of
                             Some (PList servers) \<Rightarrow> servers
                           | _ \<Rightarrow> []) = []"
      by (auto split: option.splits pyval.splits)
    ultimately show ?thesis by auto
  qed
qed

text \<open>
  C8. When \<^verbatim>\<open>OpenstackProvider.resume_stack\<close> returns a result, the calls to
  \<^verbatim>\<open>nova.servers.reboot\<close> it has made are: one \<^verbatim>\<open>HARD\<close> reboot for each server that the
  outputs list under \<^verbatim>\<open>reboot_on_resume\<close>, in the order of the list, when that output is a
  list; none when it is absent or not a list.
\<close>

theorem C8_reboot_on_resume:
  "OpenstackProvider_resume_stack os name tr = Some (Inr res, tr') \<longrightarrow>
   (\<exists>st outs. res = PDict [(''status'', PStr st), (''outputs'', PDict outs)]
      \<and> calls ''nova.servers.reboot'' tr'
          = calls ''nova.servers.reboot'' tr
            @ (case map_of outs ''reboot_on_resume'' of
                 Some (PList servers) \<Rightarrow> map (\<lambda>server. [server, PStr ''HARD'']) servers
               | _ \<Rightarrow> []))"
proof
  assume a: "OpenstackProvider_resume_stack os name tr = Some (Inr res, tr')"
  let ?tr1 = "tr @ [Api ''heat.actions.resume'' [PStr name]]"
  from a obtain u where act: "actions_resume (heat_c os) ?tr1 name = Ok u"
    by (auto simp: OpenstackProvider_resume_stack_def Let_def split: reply.splits)
  from a act obtain status heat_stack tr2
    where w: "resume_stack_wait os name RESUME_IN_PROGRESS None ?tr1
                = Some (Inr (status, heat_stack), tr2)"
      and fin: "resume_stack_finish os status heat_stack tr2 = (Inr res, tr')"
    by (auto simp: OpenstackProvider_resume_stack_def Let_def
        split: option.splits prod.splits sum.splits)
  from resume_wait_reboots [OF w]
  have c2: "calls ''nova.servers.reboot'' tr2 = calls ''nova.servers.reboot'' tr" by simp
  from resume_finish_reboots [OF fin] obtain outs
    where r: "res = PDict [(''status'', PStr status), (''outputs'', PDict outs)]"
      and t: "tr' = tr2 @ map (\<lambda>server. Api ''nova.servers.reboot'' [server, PStr ''HARD''])
                          (case map_of outs ''reboot_on_resume'' of
                             Some (PList servers) \<Rightarrow> servers
                           | _ \<Rightarrow> [])"
    by blast
  have "calls ''nova.servers.reboot'' tr'
          = calls ''nova.servers.reboot'' tr
            @ (case map_of outs ''reboot_on_resume'' of
                 Some (PList servers) \<Rightarrow> map (\<lambda>server. [server, PStr ''HARD'']) servers
               | _ \<Rightarrow> [])"
    using t c2 by (auto simp: calls_reboots split: option.splits pyval.splits)
  with r show "\<exists>st outs. res = PDict [(''status'', PStr st), (''outputs'', PDict outs)]
      \<and> calls ''nova.servers.reboot'' tr'
          = calls ''nova.servers.reboot'' tr
            @ (case map_of outs ''reboot_on_resume'' of
                 Some (PList servers) \<Rightarrow> map (\<lambda>server. [server, PStr ''HARD'']) servers
               | _ \<Rightarrow> [])"
    by blast
qed

theorem C8_reboot_on_resume_witness:
  "OpenstackProvider_resume_stack
     (openstack_scripted [stack_in ''RESUME_IN_PROGRESS'', resumed_stack]) ''lab-1'' []
     = Some (Inr (PDict [(''status'', PStr ''RESUME_COMPLETE''),
                         (''outputs'', PDict [(''public_ip'', PStr ''192.0.2.7''),
                                              (''reboot_on_resume'',
                                               PList [PStr ''srv-1'', PStr ''srv-2''])])]),
             [Api ''heat.actions.resume'' [PStr ''lab-1''],
              Sleep 10, heat_get_call ''lab-1'', Sleep 10, heat_get_call ''lab-1'',
              reboot_call ''srv-1'', reboot_call ''srv-2''])
   \<and> calls ''nova.servers.reboot''
       [Api ''heat.actions.resume'' [PStr ''lab-1''],
        Sleep 10, heat_get_call ''lab-1'', Sleep 10, heat_get_call ''lab-1'',
        reboot_call ''srv-1'', reboot_call ''srv-2'']
     = [[PStr ''srv-1'', PStr ''HARD''], [PStr ''srv-2'', PStr ''HARD'']]"
proof -
  let ?os = "openstack_scripted [stack_in ''RESUME_IN_PROGRESS'', resumed_stack]"
  let ?t1 = "[Api ''heat.actions.resume'' [PStr ''lab-1'']]"
  let ?t2 = "?t1 @ [Sleep 10, Api ''heat.stacks.get'' [PStr ''lab-1'']]"
  let ?t3 = "?t2 @ [Sleep 10, Api ''heat.stacks.get'' [PStr ''lab-1'']]"
  have f: "\<not> sublist FAILED ''RESUME_IN_PROGRESS''" "''RESUME_IN_PROGRESS'' \<noteq> RESUME_COMPLETE"
    "\<not> sublist FAILED ''RESUME_COMPLETE''" "''RESUME_COMPLETE'' = RESUME_COMPLETE"
    "\<not> sublist FAILED RESUME_IN_PROGRESS" "RESUME_IN_PROGRESS \<noteq> RESUME_COMPLETE"
    by (simp_all add: status_defs sublist_code(3))
  have w1: "resume_stack_wait ?os ''lab-1'' RESUME_IN_PROGRESS None ?t1
      = resume_stack_wait ?os ''lab-1'' ''RESUME_IN_PROGRESS'' (Some (stack_in ''RESUME_IN_PROGRESS'')) ?t2"
    using resume_wait_step [of RESUME_IN_PROGRESS ?os ?t1 "''lab-1''" "stack_in ''RESUME_IN_PROGRESS''" None] f
    by (simp add: scripted_get stack_in_def)
  have w2: "resume_stack_wait ?os ''lab-1'' ''RESUME_IN_PROGRESS'' (Some (stack_in ''RESUME_IN_PROGRESS'')) ?t2
      = resume_stack_wait ?os ''lab-1'' ''RESUME_COMPLETE'' (Some resumed_stack) ?t3"
    using resume_wait_step [of "''RESUME_IN_PROGRESS''" ?os ?t2 "''lab-1''" resumed_stack
        "Some (stack_in ''RESUME_IN_PROGRESS'')"] f
    by (simp add: scripted_get resumed_stack_def)
  have w3: "resume_stack_wait ?os ''lab-1'' ''RESUME_COMPLETE'' (Some resumed_stack) ?t3
      = Some (Inr (''RESUME_COMPLETE'', Some resumed_stack), ?t3)"
    using resume_wait_exit [of "''RESUME_COMPLETE''" ?os "''lab-1''" "Some resumed_stack" ?t3] f
    by simp
  have run: "OpenstackProvider_resume_stack ?os ''lab-1'' []
     = Some (Inr (PDict [(''status'', PStr ''RESUME_COMPLETE''),
                         (''outputs'', PDict [(''public_ip'', PStr ''192.0.2.7''),
                                              (''reboot_on_resume'',
                                               PList [PStr ''srv-1'', PStr ''srv-2''])])]),
             [Api ''heat.actions.resume'' [PStr ''lab-1''],
              Sleep 10, heat_get_call ''lab-1'', Sleep 10, heat_get_call ''lab-1'',
              reboot_call ''srv-1'', reboot_call ''srv-2''])"
    using w1 w2 w3 f
    by (simp add: OpenstackProvider_resume_stack_def resume_stack_finish_def Let_def
        OpenstackProvider_get_stack_outputs_def resumed_stack_def heat_get_call_def
        reboot_call_def)
  show ?thesis
    using C8_reboot_on_resume [where os = ?os and name = "''lab-1''" and tr = "[]"
        and res = "PDict [(''status'', PStr ''RESUME_COMPLETE''),
                         (''outputs'', PDict [(''public_ip'', PStr ''192.0.2.7''),
                                              (''reboot_on_resume'',
                                               PList [PStr ''srv-1'', PStr ''srv-2''])])]"
        and tr' = "[Api ''heat.actions.resume'' [PStr ''lab-1''],
              Sleep 10, heat_get_call ''lab-1'', Sleep 10, heat_get_call ''lab-1'',
              reboot_call ''srv-1'', reboot_call ''srv-2'']"] run
    by (simp add: calls_def)
qed

section \<open>Operations on a stack that does not exist\<close>




lemma openstack_resume_refused:
  "actions_resume (heat_c os) (tr @ [Api ''heat.actions.resume'' [PStr name]]) name = NotFound e \<Longrightarrow>
   OpenstackProvider_resume_stack os name tr
     = Some (Inl (ProviderException e), tr @ [Api ''heat.actions.resume'' [PStr name]])"
  by (simp add: OpenstackProvider_resume_stack_def Let_def)











end
